theory Spec2Isabelle
  imports Main
begin

section \<open>Data model\<close>

text \<open>
  The types of \<^verbatim>\<open>@/types\<close> that the drag hook and the stage dialog touch. A field
  named \<^verbatim>\<open>id\<close>, \<^verbatim>\<open>funnelId\<close>, \<^verbatim>\<open>name\<close> or \<^verbatim>\<open>order\<close> carries the record's name as a
  suffix, since both records have one. A timestamp is the reading of the clock
  (\<^verbatim>\<open>new Date()\<close>), a natural number.
\<close>

type_synonym timestamp = nat

record opportunity =
  id_opp :: string
  title :: string
  stageId :: string
  funnelId_opp :: string
  customFields :: "(string \<times> string) list"
  winReason :: "string option"
  lossReason :: "string option"
  lastStageChangeAt :: "timestamp option"

text \<open>
  \<^verbatim>\<open>Partial<Opportunity>\<close>: every key may be absent (\<open>None\<close>). A key that is present
  with the value \<^verbatim>\<open>undefined\<close> is not modelled.
\<close>

record opportunity_partial =
  id_upd :: "string option"
  title_upd :: "string option"
  stageId_upd :: "string option"
  funnelId_upd :: "string option"
  customFields_upd :: "(string \<times> string) list option"
  winReason_upd :: "string option"
  lossReason_upd :: "string option"
  lastStageChangeAt_upd :: "timestamp option"

record requiredField =
  id_field :: string
  name_field :: string
  isRequired_field :: bool

record requiredTask =
  id_task :: string
  name_task :: string
  isRequired_task :: bool

record stage =
  id_stage :: string
  funnelId_stage :: string
  name_stage :: string
  color :: string
  order_stage :: int
  isWinStage :: bool
  isLossStage :: bool
  requiredFields :: "requiredField list"
  opportunities :: "opportunity list"

text \<open>
  The transient descriptor of one drag gesture, built by \<^verbatim>\<open>createDragOperation\<close>
  of \<^verbatim>\<open>useDragOperationHandler\<close>.
\<close>

record dragOperation =
  opportunity_op :: opportunity
  sourceStageId_op :: string
  destinationStage_op :: stage
  destinationIndex_op :: int
  missingFields :: "requiredField list"
  missingTasks :: "requiredTask list"
  requiresReason :: bool

section \<open>Effects\<close>

text \<open>
  A thrown value. The hook only logs it, so its content is a message.
\<close>

datatype js_error = JsError string

text \<open>The argument of \<^verbatim>\<open>setShowRequiredFieldsDialog\<close>, of type \<^verbatim>\<open>boolean | string\<close>.\<close>

datatype dialog_arg = DialogBool bool | DialogString string

text \<open>
  Everything the hook does to the outside, in the order it does it: the callbacks it
  was given, the toasts, the calls to the remote store and \<^verbatim>\<open>console.error\<close>.
  \<^verbatim>\<open>console.log\<close> is left out.
\<close>

datatype event =
    ConsoleError string
  | ToastLoading string
  | ToastDismiss string
  | ToastError string
  | ToastSuccess string
  | SetIsDragging bool
  | SetStages "stage list"
  | SetCurrentDragOperation dragOperation
  | SetShowRequiredFieldsDialog dialog_arg
  | ApiUpdate string opportunity_partial
  | ApiMove string string
  | ApiGetByStageId string bool
  | ProcessStageRequirements opportunity string

text \<open>
  The remote collaborators, as the answers they give: \<open>Inl\<close> is a rejected promise.
  \<^verbatim>\<open>opportunityAPI.update\<close> and \<^verbatim>\<open>opportunityAPI.move\<close> return a value the hook drops.
\<close>

record remote =
  opportunityAPI_update :: "string \<Rightarrow> opportunity_partial \<Rightarrow> js_error + unit"
  opportunityAPI_move :: "string \<Rightarrow> string \<Rightarrow> js_error + unit"
  opportunityAPI_getByStageId :: "string \<Rightarrow> bool \<Rightarrow> js_error + opportunity list"
  processStageRequirements :: "opportunity \<Rightarrow> string \<Rightarrow> js_error + opportunity option"

text \<open>
  What the closure of one render of \<^verbatim>\<open>useOpportunityDrag\<close> holds: the two props the
  functions read and the state variable \<^verbatim>\<open>isDragging\<close>.
\<close>

record hook =
  stages :: "stage list"
  funnelId :: string
  isDragging :: bool

text \<open>
  An asynchronous computation: the events it emitted, and its outcome.
\<close>

type_synonym 'a async = "event list \<times> (js_error + 'a)"

definition emit :: "event \<Rightarrow> unit async" where
  "emit e = ([e], Inr ())"

definition await :: "event \<Rightarrow> js_error + 'a \<Rightarrow> 'a async" where
  "await call answer = ([call], answer)"

definition andThen :: "'a async \<Rightarrow> ('a \<Rightarrow> 'b async) \<Rightarrow> 'b async" where
  "andThen m f =
     (case snd m of
        Inl e \<Rightarrow> (fst m, Inl e)
      | Inr x \<Rightarrow> (fst m @ fst (f x), snd (f x)))"

definition tryCatch :: "'a async \<Rightarrow> (js_error \<Rightarrow> 'a async) \<Rightarrow> 'a async" where
  "tryCatch m handler =
     (case snd m of
        Inl e \<Rightarrow> (fst m @ fst (handler e), snd (handler e))
      | Inr x \<Rightarrow> m)"

text \<open>
  \<^verbatim>\<open>Promise.all\<close> over promises that were all started: rejected when one of them is.
\<close>

fun promiseAll :: "(js_error + 'a) list \<Rightarrow> js_error + 'a list" where
  "promiseAll [] = Inr []"
| "promiseAll (Inl e # rs) = Inl e"
| "promiseAll (Inr x # rs) = (case promiseAll rs of Inl e \<Rightarrow> Inl e | Inr xs \<Rightarrow> Inr (x # xs))"

section \<open>The drag hook\<close>

text \<open>The object spread \<^verbatim>\<open>{ ...opportunity, ...updatedOpportunity }\<close>.\<close>

definition spread :: "opportunity \<Rightarrow> opportunity_partial \<Rightarrow> opportunity" where
  "spread opp u =
     \<lparr> id_opp = (case id_upd u of None \<Rightarrow> id_opp opp | Some v \<Rightarrow> v),
       title = (case title_upd u of None \<Rightarrow> title opp | Some v \<Rightarrow> v),
       stageId = (case stageId_upd u of None \<Rightarrow> stageId opp | Some v \<Rightarrow> v),
       funnelId_opp = (case funnelId_upd u of None \<Rightarrow> funnelId_opp opp | Some v \<Rightarrow> v),
       customFields = (case customFields_upd u of None \<Rightarrow> customFields opp | Some v \<Rightarrow> v),
       winReason = (case winReason_upd u of None \<Rightarrow> winReason opp | Some v \<Rightarrow> Some v),
       lossReason = (case lossReason_upd u of None \<Rightarrow> lossReason opp | Some v \<Rightarrow> Some v),
       lastStageChangeAt =
         (case lastStageChangeAt_upd u of None \<Rightarrow> lastStageChangeAt opp | Some v \<Rightarrow> Some v) \<rparr>"

text \<open>
  The argument of the update call, \<^verbatim>\<open>{ stageId: destinationStageId, ...updatedOpportunity }\<close>:
  a \<^verbatim>\<open>stageId\<close> among the updates comes later in the literal and wins.
\<close>

definition updatePayload :: "string \<Rightarrow> opportunity_partial \<Rightarrow> opportunity_partial" where
  "updatePayload destinationStageId u =
     u\<lparr>stageId_upd := (case stageId_upd u of None \<Rightarrow> Some destinationStageId | Some v \<Rightarrow> Some v)\<rparr>"

text \<open>
  \<^verbatim>\<open>xs.splice(start, 0, x)\<close> on a copy of the list: a negative start counts from the
  end, and the start is clamped to the bounds of the list. The index is an integer
  (a fractional \<^verbatim>\<open>number\<close> would be truncated first).
\<close>

definition spliceStart :: "int \<Rightarrow> 'a list \<Rightarrow> nat" where
  "spliceStart start xs =
     (let len = int (length xs)
      in nat (if start < 0 then max (len + start) 0 else min start len))"

definition spliceInsert :: "int \<Rightarrow> 'a \<Rightarrow> 'a list \<Rightarrow> 'a list" where
  "spliceInsert start x xs = take (spliceStart start xs) xs @ x # drop (spliceStart start xs) xs"

text \<open>The callback of \<^verbatim>\<open>stages.map\<close> in the patch of the stage list.\<close>

definition patchStage ::
  "opportunity \<Rightarrow> opportunity \<Rightarrow> timestamp \<Rightarrow> string \<Rightarrow> string \<Rightarrow> int \<Rightarrow> stage \<Rightarrow> stage" where
  "patchStage opp finalOpportunity now sourceStageId destinationStageId destinationIndex st =
     (if id_stage st = sourceStageId then
        st\<lparr>opportunities := filter (\<lambda>x. id_opp x \<noteq> id_opp opp) (opportunities st)\<rparr>
      else if id_stage st = destinationStageId then
        st\<lparr>opportunities :=
             spliceInsert destinationIndex
               (finalOpportunity\<lparr>stageId := destinationStageId, lastStageChangeAt := Some now\<rparr>)
               (opportunities st)\<rparr>
      else st)"

definition updatedStages ::
  "hook \<Rightarrow> opportunity \<Rightarrow> opportunity \<Rightarrow> timestamp \<Rightarrow> string \<Rightarrow> string \<Rightarrow> int \<Rightarrow> stage list" where
  "updatedStages h opp finalOpportunity now sourceStageId destinationStageId destinationIndex =
     map (patchStage opp finalOpportunity now sourceStageId destinationStageId destinationIndex)
       (stages h)"

text \<open>The first remote step: the update call when updates were passed, else the move call.\<close>

definition persistCall :: "opportunity \<Rightarrow> string \<Rightarrow> opportunity_partial option \<Rightarrow> event" where
  "persistCall opp destinationStageId updatedOpportunity =
     (case updatedOpportunity of
        Some u \<Rightarrow> ApiUpdate (id_opp opp) (updatePayload destinationStageId u)
      | None \<Rightarrow> ApiMove (id_opp opp) destinationStageId)"

definition persistAnswer ::
  "remote \<Rightarrow> opportunity \<Rightarrow> string \<Rightarrow> opportunity_partial option \<Rightarrow> js_error + unit" where
  "persistAnswer R opp destinationStageId updatedOpportunity =
     (case updatedOpportunity of
        Some u \<Rightarrow> opportunityAPI_update R (id_opp opp) (updatePayload destinationStageId u)
      | None \<Rightarrow> opportunityAPI_move R (id_opp opp) destinationStageId)"

definition opportunityToMove :: "opportunity \<Rightarrow> opportunity_partial option \<Rightarrow> opportunity" where
  "opportunityToMove opp updatedOpportunity =
     (case updatedOpportunity of Some u \<Rightarrow> spread opp u | None \<Rightarrow> opp)"

text \<open>\<^verbatim>\<open>processedOpportunity || { ...opportunityToMove, stageId: destinationStageId }\<close>.\<close>

definition finalOpportunity ::
  "opportunity option \<Rightarrow> opportunity \<Rightarrow> string \<Rightarrow> opportunity" where
  "finalOpportunity processedOpportunity toMove destinationStageId =
     (case processedOpportunity of
        Some p \<Rightarrow> p
      | None \<Rightarrow> toMove\<lparr>stageId := destinationStageId\<rparr>)"

text \<open>The body of the \<^verbatim>\<open>try\<close> block of \<^verbatim>\<open>completeOpportunityMove\<close>.\<close>

definition commitBody ::
  "remote \<Rightarrow> timestamp \<Rightarrow> hook \<Rightarrow> opportunity \<Rightarrow> string \<Rightarrow> string \<Rightarrow> int \<Rightarrow>
   opportunity_partial option \<Rightarrow> unit async" where
  "commitBody R now h opp sourceStageId destinationStageId destinationIndex updatedOpportunity =
     (let toMove = opportunityToMove opp updatedOpportunity in
      andThen (await (persistCall opp destinationStageId updatedOpportunity)
                 (persistAnswer R opp destinationStageId updatedOpportunity)) (\<lambda>_.
      andThen (await (ProcessStageRequirements (toMove\<lparr>stageId := destinationStageId\<rparr>)
                        destinationStageId)
                 (processStageRequirements R (toMove\<lparr>stageId := destinationStageId\<rparr>)
                        destinationStageId)) (\<lambda>processedOpportunity.
      andThen (emit (SetStages
                 (updatedStages h opp
                    (finalOpportunity processedOpportunity toMove destinationStageId)
                    now sourceStageId destinationStageId destinationIndex))) (\<lambda>_.
      andThen (emit (ToastDismiss ''moving-opportunity'')) (\<lambda>_.
      emit (ToastSuccess ''Oportunidade movida com sucesso''))))))"

text \<open>
  The inner \<^verbatim>\<open>try\<close> of the \<^verbatim>\<open>catch\<close> block: one \<^verbatim>\<open>getByStageId\<close> call per stage, all
  started before any answer is awaited, then \<^verbatim>\<open>setStages\<close> with the fetched lists.
\<close>

definition originalStages :: "hook \<Rightarrow> opportunity list list \<Rightarrow> stage list" where
  "originalStages h fetched = map2 (\<lambda>st opps. st\<lparr>opportunities := opps\<rparr>) (stages h) fetched"

definition revertBody :: "remote \<Rightarrow> hook \<Rightarrow> unit async" where
  "revertBody R h =
     andThen
       (map (\<lambda>st. ApiGetByStageId (id_stage st) False) (stages h),
        promiseAll (map (\<lambda>st. opportunityAPI_getByStageId R (id_stage st) False) (stages h)))
       (\<lambda>fetched. emit (SetStages (originalStages h fetched)))"

definition revertStages :: "remote \<Rightarrow> hook \<Rightarrow> unit async" where
  "revertStages R h =
     tryCatch (revertBody R h)
       (\<lambda>revertError. emit (ConsoleError ''Error reverting stage state:''))"

definition catchBlock :: "remote \<Rightarrow> hook \<Rightarrow> js_error \<Rightarrow> unit async" where
  "catchBlock R h error =
     andThen (emit (ConsoleError ''Error moving opportunity:'')) (\<lambda>_.
     andThen (emit (ToastDismiss ''moving-opportunity'')) (\<lambda>_.
     andThen (emit (ToastError ''Erro ao mover oportunidade'')) (\<lambda>_.
     revertStages R h)))"

text \<open>
  \<^verbatim>\<open>completeOpportunityMove\<close>: the flag is raised, the \<^verbatim>\<open>try\<close> block runs under its
  \<^verbatim>\<open>catch\<close>, and the \<^verbatim>\<open>finally\<close> block lowers the flag. No error leaves the function, so
  its result is the list of its events.
\<close>

definition completeOpportunityMove ::
  "remote \<Rightarrow> timestamp \<Rightarrow> hook \<Rightarrow> opportunity \<Rightarrow> string \<Rightarrow> string \<Rightarrow> int \<Rightarrow>
   opportunity_partial option \<Rightarrow> event list" where
  "completeOpportunityMove R now h opp sourceStageId destinationStageId destinationIndex
       updatedOpportunity =
     SetIsDragging True #
     fst (tryCatch
            (commitBody R now h opp sourceStageId destinationStageId destinationIndex
               updatedOpportunity)
            (catchBlock R h)) @
     [SetIsDragging False]"

text \<open>
  Modelled from the spec: the two predicates of \<^verbatim>\<open>useDragOperationHandler\<close>, whose
  file is not part of the sources at hand. "Has any requirement" is that the union of the
  three checks is non-empty; "requires only a reason" is that the reason requirement is
  true and missing fields and missing tasks are both empty.
\<close>

definition hasRequirements :: "dragOperation \<Rightarrow> bool" where
  "hasRequirements d = (missingFields d \<noteq> [] \<or> missingTasks d \<noteq> [] \<or> requiresReason d)"

definition requiresOnlyReasons :: "dragOperation \<Rightarrow> bool" where
  "requiresOnlyReasons d = (requiresReason d \<and> missingFields d = [] \<and> missingTasks d = [])"

text \<open>
  \<^verbatim>\<open>handleOpportunityDrag\<close>. The builder \<^verbatim>\<open>createDragOperation\<close> of the same missing
  file is a parameter; it makes no remote call and always returns a descriptor. The
  message of the second lookup error is "Oportunidade n\<^verbatim>\<open>a~\<close>o encontrada", its accented
  letter written as the two bytes of its UTF-8 encoding.
\<close>

definition notFoundMessage :: string where
  "notFoundMessage = ''Oportunidade n'' @ [CHR 0xC3, CHR 0xA3] @ ''o encontrada''"

definition handleOpportunityDrag ::
  "(opportunity \<Rightarrow> string \<Rightarrow> stage \<Rightarrow> int \<Rightarrow> dragOperation) \<Rightarrow> remote \<Rightarrow> timestamp \<Rightarrow> hook \<Rightarrow>
   string \<Rightarrow> string \<Rightarrow> string \<Rightarrow> int \<Rightarrow> event list" where
  "handleOpportunityDrag createDragOperation R now h draggableId sourceDroppableId
       destinationDroppableId destinationIndex =
     (case find (\<lambda>st. id_stage st = sourceDroppableId) (stages h) of
        None \<Rightarrow>
          [ConsoleError ''Could not find source or destination stage'',
           ToastError ''Erro ao mover oportunidade'']
      | Some sourceStage \<Rightarrow>
     (case find (\<lambda>st. id_stage st = destinationDroppableId) (stages h) of
        None \<Rightarrow>
          [ConsoleError ''Could not find source or destination stage'',
           ToastError ''Erro ao mover oportunidade'']
      | Some destinationStage \<Rightarrow>
     (case find (\<lambda>opp. id_opp opp = draggableId) (opportunities sourceStage) of
        None \<Rightarrow>
          [ConsoleError ''Could not find opportunity:'', ToastError notFoundMessage]
      | Some opp \<Rightarrow>
          ToastLoading ''Movendo oportunidade...'' #
          (let dragOp = createDragOperation opp sourceDroppableId destinationStage
                          destinationIndex
           in if hasRequirements dragOp then
                [ToastDismiss ''moving-opportunity'', SetCurrentDragOperation dragOp] @
                (if requiresOnlyReasons dragOp
                 then [SetShowRequiredFieldsDialog (DialogString ''reason'')]
                 else [SetShowRequiredFieldsDialog (DialogBool True)])
              else completeOpportunityMove R now h opp sourceDroppableId
                     destinationDroppableId destinationIndex None))))"

section \<open>The stage dialog\<close>

text \<open>The values of the form of \<^verbatim>\<open>EditStageDialog\<close>, as \<^verbatim>\<open>formSchema\<close> types them.\<close>

record stageForm =
  name_form :: string
  description_form :: "string option"
  color_form :: string
  isWinStage_form :: "bool option"
  isLossStage_form :: "bool option"

text \<open>The argument of \<^verbatim>\<open>stageAPI.update\<close>.\<close>

record stageUpdate =
  name_su :: string
  description_su :: "string option"
  funnelId_su :: string
  color_su :: string
  isWinStage_su :: "bool option"
  isLossStage_su :: "bool option"
  requiredFields_su :: "requiredField list"

datatype dialog_event =
    DialogConsoleError string
  | DialogToastError string
  | DialogToastSuccess string
  | SetIsSubmitting bool
  | StageApiUpdate string stageUpdate
  | OnStageUpdated stage
  | OnOpenChange bool

text \<open>
  The colour pattern \<^verbatim>\<open>/^#([0-9a-f]{3}|[0-9a-f]{6})$/i\<close>: a hash sign, then three or six
  hexadecimal digits of either case, and nothing else.
\<close>

definition hexDigit :: "char \<Rightarrow> bool" where
  "hexDigit c = (c \<in> set ''0123456789abcdefABCDEF'')"

definition colorMatches :: "string \<Rightarrow> bool" where
  "colorMatches s =
     (case s of
        [] \<Rightarrow> False
      | c # ds \<Rightarrow> c = CHR ''#'' \<and> (length ds = 3 \<or> length ds = 6) \<and> list_all hexDigit ds)"

text \<open>
  The refinement of the schema, \<^verbatim>\<open>!(data.isWinStage && data.isLossStage)\<close>, on
  optional booleans: \<^verbatim>\<open>undefined\<close> is falsy.
\<close>

definition truthy :: "bool option \<Rightarrow> bool" where
  "truthy b = (b = Some True)"

definition refinement :: "stageForm \<Rightarrow> bool" where
  "refinement data = (\<not> (truthy (isWinStage_form data) \<and> truthy (isLossStage_form data)))"

text \<open>
  \<^verbatim>\<open>z.string().min(2)\<close> compares the length of the JavaScript string, which counts UTF-16
  code units. A string here holds the bytes of the UTF-8 encoding: a byte below \<open>0x80\<close>
  and the leading byte of a sequence of two or three bytes begin a character of one unit,
  the leading byte of a sequence of four bytes begins a character of two units (a
  surrogate pair), and a continuation byte adds none.
\<close>

definition utf16Units :: "char \<Rightarrow> nat" where
  "utf16Units c =
     (let b = (of_char c :: nat)
      in if b < 0x80 then 1 else if b < 0xC0 then 0 else if b < 0xF0 then 1 else 2)"

definition utf16Length :: "string \<Rightarrow> nat" where
  "utf16Length s = sum_list (map utf16Units s)"

text \<open>Whether \<^verbatim>\<open>formSchema\<close> accepts the values.\<close>

definition formSchema :: "stageForm \<Rightarrow> bool" where
  "formSchema data =
     (2 \<le> utf16Length (name_form data) \<and> colorMatches (color_form data) \<and>
      refinement data)"

definition notLoadedMessage :: string where
  "notLoadedMessage = ''Dados da etapa n'' @ [CHR 0xC3, CHR 0xA3] @ ''o carregados''"

text \<open>
  \<^verbatim>\<open>onSubmit\<close>, with the loaded stage and the required fields of the component's
  state, and the answer of \<^verbatim>\<open>stageAPI.update\<close> (a stage, \<^verbatim>\<open>null\<close>, or a rejection).
\<close>

definition onSubmit ::
  "(string \<Rightarrow> stageUpdate \<Rightarrow> js_error + stage option) \<Rightarrow> stage option \<Rightarrow> requiredField list \<Rightarrow>
   string \<Rightarrow> stageForm \<Rightarrow> dialog_event list" where
  "onSubmit stageAPI_update loaded reqs stageId_prop values =
     (case loaded of
        None \<Rightarrow> [DialogConsoleError ''Stage data not loaded'', DialogToastError notLoadedMessage]
      | Some st \<Rightarrow>
          (let payload =
                 \<lparr> name_su = name_form values,
                   description_su = description_form values,
                   funnelId_su = funnelId_stage st,
                   color_su = color_form values,
                   isWinStage_su = isWinStage_form values,
                   isLossStage_su = isLossStage_form values,
                   requiredFields_su = reqs \<rparr>
           in [SetIsSubmitting True, StageApiUpdate stageId_prop payload] @
              (case stageAPI_update stageId_prop payload of
                 Inl e \<Rightarrow>
                   [DialogConsoleError ''Error updating stage:'',
                    DialogToastError ''Erro ao atualizar etapa'']
               | Inr None \<Rightarrow> [DialogToastError ''Erro ao atualizar etapa'']
               | Inr (Some updatedStage) \<Rightarrow>
                   [OnStageUpdated updatedStage,
                    DialogToastSuccess ''Etapa atualizada com sucesso!'',
                    OnOpenChange False]) @
              [SetIsSubmitting False]))"

text \<open>
  \<^verbatim>\<open>handleSubmit\<close>: the form library validates the values with the schema's resolver
  and calls \<^verbatim>\<open>onSubmit\<close> only when they pass.
\<close>

definition handleSubmit ::
  "(string \<Rightarrow> stageUpdate \<Rightarrow> js_error + stage option) \<Rightarrow> stage option \<Rightarrow> requiredField list \<Rightarrow>
   string \<Rightarrow> stageForm \<Rightarrow> dialog_event list" where
  "handleSubmit stageAPI_update loaded reqs stageId_prop values =
     (if formSchema values then onSubmit stageAPI_update loaded reqs stageId_prop values else [])"

section \<open>Kinds of events\<close>

fun isRemoteCall :: "event \<Rightarrow> bool" where
  "isRemoteCall (ApiUpdate i u) = True"
| "isRemoteCall (ApiMove i d) = True"
| "isRemoteCall (ApiGetByStageId i a) = True"
| "isRemoteCall (ProcessStageRequirements x d) = True"
| "isRemoteCall e = False"

fun isGetByStageId :: "event \<Rightarrow> bool" where
  "isGetByStageId (ApiGetByStageId i a) = True"
| "isGetByStageId e = False"

fun isProcessCall :: "event \<Rightarrow> bool" where
  "isProcessCall (ProcessStageRequirements x d) = True"
| "isProcessCall e = False"

fun isSetStages :: "event \<Rightarrow> bool" where
  "isSetStages (SetStages s) = True"
| "isSetStages e = False"

fun isSetter :: "event \<Rightarrow> bool" where
  "isSetter (SetStages s) = True"
| "isSetter (SetIsDragging b) = True"
| "isSetter (SetCurrentDragOperation d) = True"
| "isSetter (SetShowRequiredFieldsDialog a) = True"
| "isSetter e = False"

fun isDialogEvent :: "event \<Rightarrow> bool" where
  "isDialogEvent (SetShowRequiredFieldsDialog a) = True"
| "isDialogEvent (SetCurrentDragOperation d) = True"
| "isDialogEvent e = False"

section \<open>A small board\<close>

text \<open>
  Three stages, the first and the last holding one opportunity each, and three remote stores: one where every
  call succeeds, one where every call is rejected, and one that rejects the writes and
  answers the reads.
\<close>

definition dealO :: opportunity where
  "dealO = \<lparr> id_opp = ''o1'', title = ''Deal'', stageId = ''A'', funnelId_opp = ''f1'',
             customFields = [], winReason = None, lossReason = None,
             lastStageChangeAt = None \<rparr>"

definition stageA :: stage where
  "stageA = \<lparr> id_stage = ''A'', funnelId_stage = ''f1'', name_stage = ''Lead'',
              color = ''#CCCCCC'', order_stage = 0, isWinStage = False, isLossStage = False,
              requiredFields = [], opportunities = [dealO] \<rparr>"

definition stageB :: stage where
  "stageB = \<lparr> id_stage = ''B'', funnelId_stage = ''f1'', name_stage = ''Won'',
              color = ''#00FF00'', order_stage = 1, isWinStage = True, isLossStage = False,
              requiredFields = [], opportunities = [] \<rparr>"

definition rivalO :: opportunity where
  "rivalO = \<lparr> id_opp = ''o2'', title = ''Tender'', stageId = ''C'', funnelId_opp = ''f1'',
              customFields = [], winReason = None, lossReason = None,
              lastStageChangeAt = None \<rparr>"

definition stageC :: stage where
  "stageC = \<lparr> id_stage = ''C'', funnelId_stage = ''f1'', name_stage = ''Lost'',
              color = ''#FF0000'', order_stage = 2, isWinStage = False, isLossStage = True,
              requiredFields = [], opportunities = [rivalO] \<rparr>"

definition board :: hook where
  "board = \<lparr> stages = [stageA, stageB, stageC], funnelId = ''f1'', isDragging = False \<rparr>"

definition remoteUp :: remote where
  "remoteUp = \<lparr> opportunityAPI_update = (\<lambda>i u. Inr ()),
                opportunityAPI_move = (\<lambda>i d. Inr ()),
                opportunityAPI_getByStageId = (\<lambda>i a. Inr []),
                processStageRequirements = (\<lambda>x d. Inr None) \<rparr>"

definition remoteDown :: remote where
  "remoteDown = \<lparr> opportunityAPI_update = (\<lambda>i u. Inl (JsError ''offline'')),
                  opportunityAPI_move = (\<lambda>i d. Inl (JsError ''offline'')),
                  opportunityAPI_getByStageId = (\<lambda>i a. Inl (JsError ''offline'')),
                  processStageRequirements = (\<lambda>x d. Inl (JsError ''offline'')) \<rparr>"

definition remoteReadOnly :: remote where
  "remoteReadOnly = \<lparr> opportunityAPI_update = (\<lambda>i u. Inl (JsError ''rejected'')),
                      opportunityAPI_move = (\<lambda>i d. Inl (JsError ''rejected'')),
                      opportunityAPI_getByStageId = (\<lambda>i a. if i = ''A'' then Inr [dealO] else Inr []),
                      processStageRequirements = (\<lambda>x d. Inr None) \<rparr>"

text \<open>A builder that finds nothing missing, and one that asks for the given verdict.\<close>

definition plainOperation :: "opportunity \<Rightarrow> string \<Rightarrow> stage \<Rightarrow> int \<Rightarrow> dragOperation" where
  "plainOperation opp src dest idx =
     \<lparr> opportunity_op = opp, sourceStageId_op = src, destinationStage_op = dest,
       destinationIndex_op = idx, missingFields = [], missingTasks = [],
       requiresReason = False \<rparr>"

definition budgetField :: requiredField where
  "budgetField = \<lparr> id_field = ''rf1'', name_field = ''budget'', isRequired_field = True \<rparr>"

text \<open>The updates a reason prompt hands back: a win reason and nothing else.\<close>

definition reasonUpdate :: opportunity_partial where
  "reasonUpdate = \<lparr> id_upd = None, title_upd = None, stageId_upd = None, funnelId_upd = None,
                    customFields_upd = None, winReason_upd = Some ''price'',
                    lossReason_upd = None, lastStageChangeAt_upd = None \<rparr>"

text \<open>
  The same updates, carrying along the stage the opportunity is in, as a dialog does that
  hands back the edited opportunity whole.
\<close>

definition staleUpdate :: opportunity_partial where
  "staleUpdate = \<lparr> id_upd = None, title_upd = None, stageId_upd = Some ''A'',
                   funnelId_upd = None, customFields_upd = None,
                   winReason_upd = Some ''price'', lossReason_upd = None,
                   lastStageChangeAt_upd = None \<rparr>"

definition verdictOperation ::
  "requiredField list \<Rightarrow> bool \<Rightarrow> opportunity \<Rightarrow> string \<Rightarrow> stage \<Rightarrow> int \<Rightarrow> dragOperation" where
  "verdictOperation missing reason opp src dest idx =
     \<lparr> opportunity_op = opp, sourceStageId_op = src, destinationStage_op = dest,
       destinationIndex_op = idx, missingFields = missing, missingTasks = [],
       requiresReason = reason \<rparr>"

text \<open>
  Two submissions of the stage dialog, one with both switches on and one with the win
  switch alone, and a stage store that answers every update with the second stage.
\<close>

definition bothForm :: stageForm where
  "bothForm = \<lparr> name_form = ''Closed'', description_form = None, color_form = ''#00ff00'',
                isWinStage_form = Some True, isLossStage_form = Some True \<rparr>"

definition winForm :: stageForm where
  "winForm = \<lparr> name_form = ''Closed'', description_form = None, color_form = ''#00ff00'',
               isWinStage_form = Some True, isLossStage_form = Some False \<rparr>"

definition stageStore :: "string \<Rightarrow> stageUpdate \<Rightarrow> js_error + stage option" where
  "stageStore i u = Inr (Some stageB)"

section \<open>The events of a commit, case by case\<close>

lemma revertStages_events:
  "fst (revertStages R h) =
     map (\<lambda>st. ApiGetByStageId (id_stage st) False) (stages h) @
     (case promiseAll (map (\<lambda>st. opportunityAPI_getByStageId R (id_stage st) False) (stages h)) of
        Inl e \<Rightarrow> [ConsoleError ''Error reverting stage state:'']
      | Inr fetched \<Rightarrow> [SetStages (originalStages h fetched)])"
  by (simp add: revertStages_def tryCatch_def revertBody_def andThen_def emit_def
      split: sum.splits)

lemma complete_success:
  assumes "persistAnswer R opp dst upd = Inr ()"
    and "processStageRequirements R ((opportunityToMove opp upd)\<lparr>stageId := dst\<rparr>) dst = Inr p"
  shows "completeOpportunityMove R now h opp src dst idx upd =
     [SetIsDragging True, persistCall opp dst upd,
      ProcessStageRequirements ((opportunityToMove opp upd)\<lparr>stageId := dst\<rparr>) dst,
      SetStages (updatedStages h opp (finalOpportunity p (opportunityToMove opp upd) dst)
                   now src dst idx),
      ToastDismiss ''moving-opportunity'', ToastSuccess ''Oportunidade movida com sucesso'',
      SetIsDragging False]"
  using assms
  by (simp add: completeOpportunityMove_def commitBody_def tryCatch_def andThen_def emit_def
      await_def Let_def)

lemma complete_persist_fails:
  assumes "persistAnswer R opp dst upd = Inl e"
  shows "completeOpportunityMove R now h opp src dst idx upd =
     [SetIsDragging True, persistCall opp dst upd,
      ConsoleError ''Error moving opportunity:'', ToastDismiss ''moving-opportunity'',
      ToastError ''Erro ao mover oportunidade''] @ fst (revertStages R h) @
     [SetIsDragging False]"
  using assms
  by (simp add: completeOpportunityMove_def commitBody_def catchBlock_def tryCatch_def
      andThen_def emit_def await_def Let_def)

lemma complete_process_fails:
  assumes "persistAnswer R opp dst upd = Inr ()"
    and "processStageRequirements R ((opportunityToMove opp upd)\<lparr>stageId := dst\<rparr>) dst = Inl e"
  shows "completeOpportunityMove R now h opp src dst idx upd =
     [SetIsDragging True, persistCall opp dst upd,
      ProcessStageRequirements ((opportunityToMove opp upd)\<lparr>stageId := dst\<rparr>) dst,
      ConsoleError ''Error moving opportunity:'', ToastDismiss ''moving-opportunity'',
      ToastError ''Erro ao mover oportunidade''] @ fst (revertStages R h) @
     [SetIsDragging False]"
  using assms
  by (simp add: completeOpportunityMove_def commitBody_def catchBlock_def tryCatch_def
      andThen_def emit_def await_def Let_def)

lemma filter_setStages_success:
  assumes "persistAnswer R opp dst upd = Inr ()"
    and "processStageRequirements R ((opportunityToMove opp upd)\<lparr>stageId := dst\<rparr>) dst = Inr p"
  shows "filter isSetStages (completeOpportunityMove R now h opp src dst idx upd) =
     [SetStages (updatedStages h opp (finalOpportunity p (opportunityToMove opp upd) dst) now src dst idx)]"
  by (simp add: complete_success[OF assms] persistCall_def split: option.splits)

lemma remoteUp_persist: "persistAnswer remoteUp opp dst upd = Inr ()"
  by (simp add: persistAnswer_def remoteUp_def split: option.splits)

lemma remoteUp_process: "processStageRequirements remoteUp x dst = Inr None"
  by (simp add: remoteUp_def)

lemma board_stages: "stages board = [stageA, stageB, stageC]"
  by (simp add: board_def)

lemma board_ids: "id_stage stageA = ''A''" "id_stage stageB = ''B''" "id_stage stageC = ''C''"
  by (simp_all add: stageA_def stageB_def stageC_def)

lemma board_opportunities:
  "opportunities stageA = [dealO]" "opportunities stageB = []" "opportunities stageC = [rivalO]"
  by (simp_all add: stageA_def stageB_def stageC_def)

lemma board_opp_ids: "id_opp dealO = ''o1''" "id_opp rivalO = ''o2''"
  by (simp_all add: dealO_def rivalO_def)

lemma dealO_unchanged: "finalOpportunity None (opportunityToMove dealO None) d = dealO\<lparr>stageId := d\<rparr>"
  by (simp add: finalOpportunity_def opportunityToMove_def)

lemma board_find:
  "find (\<lambda>st. id_stage st = ''A'') (stages board) = Some stageA"
  "find (\<lambda>st. id_stage st = ''B'') (stages board) = Some stageB"
  "find (\<lambda>x. id_opp x = ''o1'') (opportunities stageA) = Some dealO"
  by (simp_all add: board_stages board_ids board_opportunities board_opp_ids)

section \<open>Claims about the commit\<close>

text \<open>
  C10. After a successful commit (the persist call and the stage-requirements
  processing both return), the hook calls \<^verbatim>\<open>setStages\<close> once, with a list as long as the
  one it was given, in which every stage whose id is neither the source stage id nor the
  destination stage id is the stage it was, opportunity list and all other fields alike.
\<close>

theorem other_stages_unchanged:
  assumes "persistAnswer R opp dst upd = Inr ()"
    and "processStageRequirements R ((opportunityToMove opp upd)\<lparr>stageId := dst\<rparr>) dst = Inr p"
  shows "let S = updatedStages h opp (finalOpportunity p (opportunityToMove opp upd) dst) now src dst idx
         in filter isSetStages (completeOpportunityMove R now h opp src dst idx upd) = [SetStages S] \<and>
         length S = length (stages h) \<and>
         (\<forall>i < length (stages h).
            id_stage (stages h ! i) \<noteq> src \<and> id_stage (stages h ! i) \<noteq> dst \<longrightarrow> S ! i = stages h ! i)"
  using filter_setStages_success[OF assms]
  by (simp add: updatedStages_def patchStage_def)

theorem other_stages_unchanged_witness:
  "filter isSetStages (completeOpportunityMove remoteUp 7 board dealO ''A'' ''B'' 0 None) =
     [SetStages (updatedStages board dealO (dealO\<lparr>stageId := ''B''\<rparr>) 7 ''A'' ''B'' 0)] \<and>
   updatedStages board dealO (dealO\<lparr>stageId := ''B''\<rparr>) 7 ''A'' ''B'' 0 ! 2 = stageC"
proof -
  have ok: "persistAnswer remoteUp dealO ''B'' None = Inr ()"
    by (rule remoteUp_persist)
  have pr: "processStageRequirements remoteUp ((opportunityToMove dealO None)\<lparr>stageId := ''B''\<rparr>) ''B'' = Inr None"
    by (rule remoteUp_process)
  note t = other_stages_unchanged[OF ok pr, where h=board and now=7 and src="''A''" and idx=0]
  from t have one: "filter isSetStages (completeOpportunityMove remoteUp 7 board dealO ''A'' ''B'' 0 None) =
     [SetStages (updatedStages board dealO (dealO\<lparr>stageId := ''B''\<rparr>) 7 ''A'' ''B'' 0)]"
    by (simp add: Let_def dealO_unchanged)
  from t have "\<forall>i < length (stages board).
      id_stage (stages board ! i) \<noteq> ''A'' \<and> id_stage (stages board ! i) \<noteq> ''B'' \<longrightarrow>
      updatedStages board dealO (dealO\<lparr>stageId := ''B''\<rparr>) 7 ''A'' ''B'' 0 ! i = stages board ! i"
    by (simp add: Let_def dealO_unchanged)
  then have "updatedStages board dealO (dealO\<lparr>stageId := ''B''\<rparr>) 7 ''A'' ''B'' 0 ! 2 = stageC"
    by (simp add: board_stages board_ids)
  with one show ?thesis by simp
qed

lemma spliceStart_le: "spliceStart idx xs \<le> length xs"
  by (auto simp add: spliceStart_def Let_def)

lemma spliceStart_in_range: "0 \<le> idx \<Longrightarrow> idx \<le> int (length xs) \<Longrightarrow> spliceStart idx xs = nat idx"
  by (simp add: spliceStart_def Let_def)

lemma insert_at_nth: "k \<le> length xs \<Longrightarrow> (take k xs @ x # drop k xs) ! k = x"
  by (simp add: nth_append)

lemma success_toast:
  assumes "persistAnswer R opp dst upd = Inr ()"
    and "processStageRequirements R ((opportunityToMove opp upd)\<lparr>stageId := dst\<rparr>) dst = Inr p"
  shows "ToastSuccess ''Oportunidade movida com sucesso'' \<in> set (completeOpportunityMove R now h opp src dst idx upd)"
  by (simp add: complete_success[OF assms])

text \<open>
  C9. When the source stage id equals the destination stage id, a successful commit calls
  \<^verbatim>\<open>setStages\<close> once with a list in which the stages of that id have lost every opportunity
  with the moved opportunity's id and every other stage is as it was: the branch of the
  source stage comes first in the callback. No stage gains an element, so the opportunity
  is nowhere re-inserted although the remote call succeeded.
\<close>

theorem same_stage_move_drops:
  assumes "persistAnswer R opp dst upd = Inr ()"
    and "processStageRequirements R ((opportunityToMove opp upd)\<lparr>stageId := dst\<rparr>) dst = Inr p"
  shows "let S = updatedStages h opp (finalOpportunity p (opportunityToMove opp upd) dst) now dst dst idx
         in filter isSetStages (completeOpportunityMove R now h opp dst dst idx upd) = [SetStages S] \<and>
            S = map (\<lambda>st. if id_stage st = dst
                           then st\<lparr>opportunities := filter (\<lambda>x. id_opp x \<noteq> id_opp opp) (opportunities st)\<rparr>
                           else st) (stages h) \<and>
            (\<forall>i < length (stages h).
               set (opportunities (S ! i)) \<subseteq> set (opportunities (stages h ! i)) \<and>
               (id_stage (stages h ! i) = dst \<longrightarrow> id_opp opp \<notin> id_opp ` set (opportunities (S ! i))))"
  using filter_setStages_success[OF assms]
  by (auto simp add: updatedStages_def patchStage_def Let_def)

theorem same_stage_move_drops_witness:
  "filter isSetStages (completeOpportunityMove remoteUp 7 board dealO ''A'' ''A'' 0 None) =
     [SetStages [stageA\<lparr>opportunities := []\<rparr>, stageB, stageC]]"
proof -
  have ok: "persistAnswer remoteUp dealO ''A'' None = Inr ()"
    by (rule remoteUp_persist)
  have pr: "processStageRequirements remoteUp ((opportunityToMove dealO None)\<lparr>stageId := ''A''\<rparr>) ''A'' = Inr None"
    by (rule remoteUp_process)
  note t = same_stage_move_drops[OF ok pr, where h=board and now=7 and idx=0]
  then show ?thesis
    by (simp add: Let_def board_stages board_ids board_opportunities board_opp_ids)
qed

text \<open>
  C2, as amended. After a successful commit between two different stage ids, the hook
  calls \<^verbatim>\<open>setStages\<close> once and emits the success toast. In the new list every stage with
  the source id has lost all opportunities with the moved opportunity's id, and every
  stage with the destination id has the final record, carrying the destination stage id
  and the clock's reading as its last stage change, inserted where \<^verbatim>\<open>splice\<close> puts it:
  at the requested index when that lies between zero and the length of the list, else
  at the index clamped to the list.
\<close>

theorem commit_success_moves:
  assumes "persistAnswer R opp dst upd = Inr ()"
    and "processStageRequirements R ((opportunityToMove opp upd)\<lparr>stageId := dst\<rparr>) dst = Inr p"
    and "src \<noteq> dst"
  shows "let moved = (finalOpportunity p (opportunityToMove opp upd) dst)
                       \<lparr>stageId := dst, lastStageChangeAt := Some now\<rparr>;
             S = updatedStages h opp (finalOpportunity p (opportunityToMove opp upd) dst) now src dst idx;
             tr = completeOpportunityMove R now h opp src dst idx upd
         in filter isSetStages tr = [SetStages S] \<and>
            ToastSuccess ''Oportunidade movida com sucesso'' \<in> set tr \<and>
            length S = length (stages h) \<and>
            stageId moved = dst \<and> lastStageChangeAt moved = Some now \<and>
            (\<forall>i < length (stages h).
               (id_stage (stages h ! i) = src \<longrightarrow>
                  opportunities (S ! i) =
                    filter (\<lambda>x. id_opp x \<noteq> id_opp opp) (opportunities (stages h ! i)) \<and>
                  id_opp opp \<notin> id_opp ` set (opportunities (S ! i))) \<and>
               (id_stage (stages h ! i) = dst \<longrightarrow>
                  (let old = opportunities (stages h ! i); k = spliceStart idx old
                   in k \<le> length old \<and>
                      opportunities (S ! i) = take k old @ moved # drop k old \<and>
                      opportunities (S ! i) ! k = moved \<and>
                      (0 \<le> idx \<and> idx \<le> int (length old) \<longrightarrow> k = nat idx))))"
  using filter_setStages_success[OF assms(1,2)] success_toast[OF assms(1,2)] assms(3)
  by (auto simp add: updatedStages_def patchStage_def Let_def spliceStart_le insert_at_nth
      spliceStart_in_range spliceInsert_def)


theorem commit_success_moves_witness:
  "filter isSetStages (completeOpportunityMove remoteUp 7 board dealO ''A'' ''C'' 1 None) =
     [SetStages [stageA\<lparr>opportunities := []\<rparr>, stageB,
                 stageC\<lparr>opportunities :=
                   [rivalO, dealO\<lparr>stageId := ''C'', lastStageChangeAt := Some 7\<rparr>]\<rparr>]] \<and>
   ToastSuccess ''Oportunidade movida com sucesso'' \<in>
     set (completeOpportunityMove remoteUp 7 board dealO ''A'' ''C'' 1 None)"
proof -
  have ok: "persistAnswer remoteUp dealO ''C'' None = Inr ()"
    by (rule remoteUp_persist)
  have pr: "processStageRequirements remoteUp ((opportunityToMove dealO None)\<lparr>stageId := ''C''\<rparr>) ''C'' = Inr None"
    by (rule remoteUp_process)
  have ne: "''A'' \<noteq> ''C''"
    by simp
  note t = commit_success_moves[OF ok pr ne, where h=board and now=7 and idx=1]
  then show ?thesis
    by (simp add: Let_def dealO_unchanged updatedStages_def patchStage_def spliceInsert_def
        spliceStart_def board_stages board_ids board_opportunities board_opp_ids)
qed

text \<open>
  C2 as stated fails on two inputs. A move of the first stage's only opportunity into the
  same stage leaves that stage empty: nothing is inserted. A move into the empty second
  stage at index 2 puts the record at index 0 of a list of length 1.
\<close>

theorem commit_success_moves_counterexample:
  "filter isSetStages (completeOpportunityMove remoteUp 7 board dealO ''A'' ''A'' 0 None) =
     [SetStages [stageA\<lparr>opportunities := []\<rparr>, stageB, stageC]] \<and>
   filter isSetStages (completeOpportunityMove remoteUp 7 board dealO ''A'' ''B'' 2 None) =
     [SetStages [stageA\<lparr>opportunities := []\<rparr>,
                 stageB\<lparr>opportunities := [dealO\<lparr>stageId := ''B'', lastStageChangeAt := Some 7\<rparr>]\<rparr>,
                 stageC]]"
  by (simp add: filter_setStages_success[OF remoteUp_persist remoteUp_process]
      dealO_unchanged updatedStages_def patchStage_def spliceInsert_def
      spliceStart_def board_stages board_ids board_opportunities board_opp_ids)

lemma revertStages_no_process: "filter isProcessCall (fst (revertStages R h)) = []"
  by (simp add: revertStages_events filter_map comp_def split: sum.splits)

lemma persistCall_kind:
  "isRemoteCall (persistCall opp dst upd)" "\<not> isProcessCall (persistCall opp dst upd)"
  "\<not> isSetStages (persistCall opp dst upd)" "\<not> isGetByStageId (persistCall opp dst upd)"
  by (simp_all add: persistCall_def split: option.splits)

text \<open>
  The steps of a commit. The first thing it does after raising the flag is the persist
  call: the update call with \<^verbatim>\<open>{ stageId: destinationStageId, ...updatedOpportunity }\<close>
  when updates were passed, the move call otherwise. When that call is rejected the
  processor is never invoked; when it succeeds the next event is
  \<^verbatim>\<open>processStageRequirements\<close> on the merged opportunity with the destination stage id.
  When both succeed they are the only remote calls, and the list passed to \<^verbatim>\<open>setStages\<close>
  is built from the processed opportunity when there is one and from the merged
  opportunity otherwise. The update call carries the destination stage id only when the
  updates have no stage id of their own.
\<close>

lemma commit_steps:
  "let tr = completeOpportunityMove R now h opp src dst idx upd;
       merged = (case upd of Some u \<Rightarrow> spread opp u | None \<Rightarrow> opp)\<lparr>stageId := dst\<rparr>;
       persisted = (case upd of
                      Some u \<Rightarrow> opportunityAPI_update R (id_opp opp) (updatePayload dst u)
                    | None \<Rightarrow> opportunityAPI_move R (id_opp opp) dst)
   in tr ! 0 = SetIsDragging True \<and>
      tr ! 1 = (case upd of
                  Some u \<Rightarrow> ApiUpdate (id_opp opp) (updatePayload dst u)
                | None \<Rightarrow> ApiMove (id_opp opp) dst) \<and>
      (\<forall>u. stageId_upd u = None \<longrightarrow> updatePayload dst u = u\<lparr>stageId_upd := Some dst\<rparr>) \<and>
      (\<forall>e. persisted = Inl e \<longrightarrow> filter isProcessCall tr = []) \<and>
      (persisted = Inr () \<longrightarrow> tr ! 2 = ProcessStageRequirements merged dst) \<and>
      (\<forall>p. persisted = Inr () \<and> processStageRequirements R merged dst = Inr p \<longrightarrow>
           filter isRemoteCall tr = [tr ! 1, tr ! 2] \<and>
           tr ! 3 = SetStages (updatedStages h opp (case p of Some q \<Rightarrow> q | None \<Rightarrow> merged)
                                 now src dst idx))"
proof -
  have pa: "persistAnswer R opp dst upd =
      (case upd of
         Some u \<Rightarrow> opportunityAPI_update R (id_opp opp) (updatePayload dst u)
       | None \<Rightarrow> opportunityAPI_move R (id_opp opp) dst)"
    by (simp add: persistAnswer_def)
  have pc: "persistCall opp dst upd =
      (case upd of
         Some u \<Rightarrow> ApiUpdate (id_opp opp) (updatePayload dst u)
       | None \<Rightarrow> ApiMove (id_opp opp) dst)"
    by (simp add: persistCall_def)
  have mg: "(opportunityToMove opp upd)\<lparr>stageId := dst\<rparr> =
      (case upd of Some u \<Rightarrow> spread opp u | None \<Rightarrow> opp)\<lparr>stageId := dst\<rparr>"
    by (simp add: opportunityToMove_def)
  have rc: "isRemoteCall (persistCall opp dst upd)"
    by (simp add: persistCall_def split: option.splits)
  show ?thesis
  proof (cases "persistAnswer R opp dst upd")
    case (Inl e)
    show ?thesis
      using rc by (simp add: Let_def complete_persist_fails[OF Inl] pa[symmetric] pc[symmetric] Inl
          updatePayload_def revertStages_no_process persistCall_kind)
  next
    case (Inr u)
    then have ok: "persistAnswer R opp dst upd = Inr ()" by simp
    show ?thesis
    proof (cases "processStageRequirements R ((opportunityToMove opp upd)\<lparr>stageId := dst\<rparr>) dst")
      case (Inl e)
      show ?thesis
        using rc Inl by (simp add: Let_def complete_process_fails[OF ok Inl] pa[symmetric] pc[symmetric] mg[symmetric] ok updatePayload_def)
    next
      case (Inr p)
      show ?thesis
        using rc Inr by (simp add: Let_def complete_success[OF ok Inr] pa[symmetric] pc[symmetric] mg[symmetric] ok updatePayload_def finalOpportunity_def)
    qed
  qed
qed


text \<open>
  C4. The first step is to persist the opportunity's new stage. That fails when the
  updates carry a stage id: in \<^verbatim>\<open>{ stageId: destinationStageId, ...updatedOpportunity }\<close>
  the later key wins. Moving the first stage's opportunity into the second stage with
  updates that still name the first stage, on a store that accepts every call, the update
  call tells the store to keep the opportunity in the first stage, while the processor is
  invoked for the second stage and the list passed to \<^verbatim>\<open>setStages\<close> shows the opportunity
  there. The two later steps put the destination stage id last and are not affected.
\<close>

theorem stale_stage_is_persisted:
  "completeOpportunityMove remoteUp 7 board dealO ''A'' ''B'' 0 (Some staleUpdate) =
     [SetIsDragging True,
      ApiUpdate ''o1'' staleUpdate,
      ProcessStageRequirements (dealO\<lparr>stageId := ''B'', winReason := Some ''price''\<rparr>) ''B'',
      SetStages [stageA\<lparr>opportunities := []\<rparr>,
                 stageB\<lparr>opportunities :=
                   [dealO\<lparr>stageId := ''B'', winReason := Some ''price'',
                          lastStageChangeAt := Some 7\<rparr>]\<rparr>,
                 stageC],
      ToastDismiss ''moving-opportunity'', ToastSuccess ''Oportunidade movida com sucesso'',
      SetIsDragging False] \<and>
   stageId_upd staleUpdate = Some ''A''"
proof -
  have payload: "updatePayload ''B'' staleUpdate = staleUpdate"
    by (simp add: updatePayload_def staleUpdate_def)
  have merged: "(opportunityToMove dealO (Some staleUpdate))\<lparr>stageId := ''B''\<rparr> =
      dealO\<lparr>stageId := ''B'', winReason := Some ''price''\<rparr>"
    by (simp add: opportunityToMove_def spread_def staleUpdate_def dealO_def)
  have final: "finalOpportunity None (opportunityToMove dealO (Some staleUpdate)) ''B'' =
      dealO\<lparr>stageId := ''B'', winReason := Some ''price''\<rparr>"
    by (simp add: finalOpportunity_def merged)
  have patched: "updatedStages board dealO (dealO\<lparr>stageId := ''B'', winReason := Some ''price''\<rparr>)
        7 ''A'' ''B'' 0 =
      [stageA\<lparr>opportunities := []\<rparr>,
       stageB\<lparr>opportunities :=
         [dealO\<lparr>stageId := ''B'', winReason := Some ''price'',
                lastStageChangeAt := Some 7\<rparr>]\<rparr>,
       stageC]"
    by (simp add: updatedStages_def patchStage_def spliceInsert_def spliceStart_def
        board_stages board_ids board_opportunities board_opp_ids)
  have "completeOpportunityMove remoteUp 7 board dealO ''A'' ''B'' 0 (Some staleUpdate) =
     [SetIsDragging True, persistCall dealO ''B'' (Some staleUpdate),
      ProcessStageRequirements ((opportunityToMove dealO (Some staleUpdate))\<lparr>stageId := ''B''\<rparr>) ''B'',
      SetStages (updatedStages board dealO
                   (finalOpportunity None (opportunityToMove dealO (Some staleUpdate)) ''B'')
                   7 ''A'' ''B'' 0),
      ToastDismiss ''moving-opportunity'', ToastSuccess ''Oportunidade movida com sucesso'',
      SetIsDragging False]"
    by (rule complete_success[OF remoteUp_persist remoteUp_process])
  then show ?thesis
    by (simp add: persistCall_def payload merged final patched board_opp_ids)
      (simp add: staleUpdate_def)
qed

section \<open>Claims about a failed commit\<close>

lemma promiseAll_map_Inr: "promiseAll (map Inr xs) = Inr xs"
  by (induction xs) simp_all

lemma promiseAll_Inr_only: "promiseAll rs = Inr xs \<Longrightarrow> rs = map Inr xs"
  by (induction rs arbitrary: xs rule: promiseAll.induct) (auto split: sum.splits)

lemma promiseAll_Inl: "(\<exists>e. promiseAll rs = Inl e) = (\<exists>e. Inl e \<in> set rs)"
  by (induction rs rule: promiseAll.induct) (auto split: sum.splits)

lemma split_at_unique:
  assumes "ys @ x # zs = pre @ y # post" and "P y"
    and "\<forall>a \<in> set ys. \<not> P a" and "\<forall>a \<in> set zs. \<not> P a"
  shows "pre = ys \<and> y = x \<and> post = zs"
  using assms
  by (auto simp add: append_eq_append_conv2 append_eq_Cons_conv Cons_eq_append_conv)

lemma drop_last_two: "drop (length (xs @ [a, b]) - 2) (xs @ [a, b]) = [a, b]"
  by simp

lemma revert_gets:
  "filter isGetByStageId (fst (revertStages R h)) =
     map (\<lambda>st. ApiGetByStageId (id_stage st) False) (stages h)"
  by (simp add: revertStages_events filter_map comp_def split: sum.splits)

lemma revert_fetched:
  assumes "map (\<lambda>st. opportunityAPI_getByStageId R (id_stage st) False) (stages h) = map Inr fetched"
  shows "fst (revertStages R h) =
     map (\<lambda>st. ApiGetByStageId (id_stage st) False) (stages h) @ [SetStages (originalStages h fetched)]"
  by (simp add: revertStages_events assms promiseAll_map_Inr)

lemma revert_rejected:
  assumes "Inl e \<in> set (map (\<lambda>st. opportunityAPI_getByStageId R (id_stage st) False) (stages h))"
  shows "fst (revertStages R h) =
     map (\<lambda>st. ApiGetByStageId (id_stage st) False) (stages h) @
     [ConsoleError ''Error reverting stage state:'']"
proof -
  from assms obtain e' where
    "promiseAll (map (\<lambda>st. opportunityAPI_getByStageId R (id_stage st) False) (stages h)) = Inl e'"
    using promiseAll_Inl by blast
  then show ?thesis
    by (simp add: revertStages_events)
qed

lemma originalStages_nth:
  assumes "length fetched = length (stages h)" and "i < length (stages h)"
  shows "originalStages h fetched ! i = (stages h ! i)\<lparr>opportunities := fetched ! i\<rparr>"
  using assms by (simp add: originalStages_def)

lemma failed_commit_shape:
  assumes "(\<exists>e. persistAnswer R opp dst upd = Inl e) \<or>
           (persistAnswer R opp dst upd = Inr () \<and>
            (\<exists>e. processStageRequirements R ((opportunityToMove opp upd)\<lparr>stageId := dst\<rparr>) dst = Inl e))"
  shows "\<exists>calls. completeOpportunityMove R now h opp src dst idx upd =
           SetIsDragging True # calls @
           [ConsoleError ''Error moving opportunity:'', ToastDismiss ''moving-opportunity'',
            ToastError ''Erro ao mover oportunidade''] @ fst (revertStages R h) @
           [SetIsDragging False] \<and>
           persistCall opp dst upd \<in> set calls \<and>
           (\<forall>c \<in> set calls. \<not> isSetStages c \<and> \<not> isGetByStageId c)"
proof -
  from assms consider
    (persist) e where "persistAnswer R opp dst upd = Inl e"
  | (process) e where "persistAnswer R opp dst upd = Inr ()"
      "processStageRequirements R ((opportunityToMove opp upd)\<lparr>stageId := dst\<rparr>) dst = Inl e"
    by blast
  then show ?thesis
  proof cases
    case persist
    show ?thesis
      by (rule exI[of _ "[persistCall opp dst upd]"])
        (simp add: complete_persist_fails[OF persist] persistCall_kind)
  next
    case process
    show ?thesis
      by (rule exI[of _ "[persistCall opp dst upd,
            ProcessStageRequirements ((opportunityToMove opp upd)\<lparr>stageId := dst\<rparr>) dst]"])
        (simp add: complete_process_fails[OF process] persistCall_kind)
  qed
qed

text \<open>
  C5. When the persist call or the stage-requirements processing is rejected, the error
  toast is emitted and \<^verbatim>\<open>getByStageId\<close> is called once for every stage of the list, in
  the list's order. When all these calls answer, \<^verbatim>\<open>setStages\<close> is called once, with the
  stages given their fetched lists. When one of them is rejected, \<^verbatim>\<open>setStages\<close> is not
  called at all: the run ends with the logged error and the lowering of the flag.
\<close>

theorem failed_commit_resynchronizes:
  assumes "(\<exists>e. persistAnswer R opp dst upd = Inl e) \<or>
           (persistAnswer R opp dst upd = Inr () \<and>
            (\<exists>e. processStageRequirements R ((opportunityToMove opp upd)\<lparr>stageId := dst\<rparr>) dst = Inl e))"
  shows "let tr = completeOpportunityMove R now h opp src dst idx upd;
             answers = map (\<lambda>st. opportunityAPI_getByStageId R (id_stage st) False) (stages h)
         in ToastError ''Erro ao mover oportunidade'' \<in> set tr \<and>
            filter isGetByStageId tr = map (\<lambda>st. ApiGetByStageId (id_stage st) False) (stages h) \<and>
            (\<forall>fetched. answers = map Inr fetched \<longrightarrow>
               filter isSetStages tr = [SetStages (originalStages h fetched)] \<and>
               length (originalStages h fetched) = length (stages h) \<and>
               (\<forall>i < length (stages h).
                  originalStages h fetched ! i = (stages h ! i)\<lparr>opportunities := fetched ! i\<rparr>)) \<and>
            ((\<exists>e. Inl e \<in> set answers) \<longrightarrow>
               filter isSetStages tr = [] \<and>
               drop (length tr - 2) tr =
                 [ConsoleError ''Error reverting stage state:'', SetIsDragging False])"
proof -
  from failed_commit_shape[OF assms, of now h src idx] obtain calls where
    tr: "completeOpportunityMove R now h opp src dst idx upd =
           SetIsDragging True # calls @
           [ConsoleError ''Error moving opportunity:'', ToastDismiss ''moving-opportunity'',
            ToastError ''Erro ao mover oportunidade''] @ fst (revertStages R h) @
           [SetIsDragging False]"
    and calls: "\<forall>c \<in> set calls. \<not> isSetStages c \<and> \<not> isGetByStageId c"
    by blast
  from calls have fc: "filter isSetStages calls = []" "filter isGetByStageId calls = []"
    by (simp_all add: filter_empty_conv)
  have toast: "ToastError ''Erro ao mover oportunidade'' \<in>
      set (completeOpportunityMove R now h opp src dst idx upd)"
    by (simp add: tr)
  have gets: "filter isGetByStageId (completeOpportunityMove R now h opp src dst idx upd) =
      map (\<lambda>st. ApiGetByStageId (id_stage st) False) (stages h)"
    by (simp add: tr fc revert_gets)
  have fetched: "filter isSetStages (completeOpportunityMove R now h opp src dst idx upd) =
        [SetStages (originalStages h fetched)] \<and>
      length (originalStages h fetched) = length (stages h) \<and>
      (\<forall>i < length (stages h).
         originalStages h fetched ! i = (stages h ! i)\<lparr>opportunities := fetched ! i\<rparr>)"
    if a: "map (\<lambda>st. opportunityAPI_getByStageId R (id_stage st) False) (stages h) = map Inr fetched"
    for fetched
  proof -
    from a have len: "length fetched = length (stages h)"
      by (metis length_map)
    show ?thesis
      by (simp add: tr fc revert_fetched[OF a] filter_map comp_def len originalStages_nth)
        (simp add: originalStages_def len)
  qed
  have rejected: "filter isSetStages (completeOpportunityMove R now h opp src dst idx upd) = [] \<and>
      drop (length (completeOpportunityMove R now h opp src dst idx upd) - 2)
        (completeOpportunityMove R now h opp src dst idx upd) =
        [ConsoleError ''Error reverting stage state:'', SetIsDragging False]"
    if a: "\<exists>e. Inl e \<in> set (map (\<lambda>st. opportunityAPI_getByStageId R (id_stage st) False) (stages h))"
  proof -
    from a obtain e where
      "Inl e \<in> set (map (\<lambda>st. opportunityAPI_getByStageId R (id_stage st) False) (stages h))"
      by blast
    note r = revert_rejected[OF this]
    have "completeOpportunityMove R now h opp src dst idx upd =
        (SetIsDragging True # calls @
         [ConsoleError ''Error moving opportunity:'', ToastDismiss ''moving-opportunity'',
          ToastError ''Erro ao mover oportunidade''] @
         map (\<lambda>st. ApiGetByStageId (id_stage st) False) (stages h)) @
        [ConsoleError ''Error reverting stage state:'', SetIsDragging False]"
      by (simp add: tr r)
    then have "drop (length (completeOpportunityMove R now h opp src dst idx upd) - 2)
        (completeOpportunityMove R now h opp src dst idx upd) =
        [ConsoleError ''Error reverting stage state:'', SetIsDragging False]"
      using drop_last_two by metis
    moreover have "filter isSetStages (completeOpportunityMove R now h opp src dst idx upd) = []"
      by (simp add: tr fc r filter_map comp_def)
    ultimately show ?thesis by simp
  qed
  show ?thesis
    unfolding Let_def using toast gets fetched rejected by blast
qed


lemma remoteReadOnly_persist: "persistAnswer remoteReadOnly opp dst None = Inl (JsError ''rejected'')"
  by (simp add: persistAnswer_def remoteReadOnly_def)

lemma remoteReadOnly_answers:
  "map (\<lambda>st. opportunityAPI_getByStageId remoteReadOnly (id_stage st) False) (stages board) =
     map Inr [ [dealO], [], [] ]"
  by (simp add: remoteReadOnly_def board_stages board_ids)

lemma remoteDown_persist: "persistAnswer remoteDown opp dst None = Inl (JsError ''offline'')"
  by (simp add: persistAnswer_def remoteDown_def)

lemma remoteDown_answers:
  "Inl (JsError ''offline'') \<in>
     set (map (\<lambda>st. opportunityAPI_getByStageId remoteDown (id_stage st) False) (stages board))"
  by (simp add: remoteDown_def board_stages)

theorem failed_commit_resynchronizes_witness:
  "ToastError ''Erro ao mover oportunidade'' \<in>
     set (completeOpportunityMove remoteReadOnly 7 board dealO ''A'' ''B'' 0 None) \<and>
   filter isGetByStageId (completeOpportunityMove remoteReadOnly 7 board dealO ''A'' ''B'' 0 None) =
     [ApiGetByStageId ''A'' False, ApiGetByStageId ''B'' False, ApiGetByStageId ''C'' False] \<and>
   filter isSetStages (completeOpportunityMove remoteReadOnly 7 board dealO ''A'' ''B'' 0 None) =
     [SetStages [stageA\<lparr>opportunities := [dealO]\<rparr>, stageB\<lparr>opportunities := []\<rparr>,
                 stageC\<lparr>opportunities := []\<rparr>]] \<and>
   filter isSetStages (completeOpportunityMove remoteDown 7 board dealO ''A'' ''B'' 0 None) = []"
proof -
  have a: "(\<exists>e. persistAnswer remoteReadOnly dealO ''B'' None = Inl e) \<or>
           (persistAnswer remoteReadOnly dealO ''B'' None = Inr () \<and>
            (\<exists>e. processStageRequirements remoteReadOnly
                   ((opportunityToMove dealO None)\<lparr>stageId := ''B''\<rparr>) ''B'' = Inl e))"
    by (simp add: remoteReadOnly_persist)
  have b: "(\<exists>e. persistAnswer remoteDown dealO ''B'' None = Inl e) \<or>
           (persistAnswer remoteDown dealO ''B'' None = Inr () \<and>
            (\<exists>e. processStageRequirements remoteDown
                   ((opportunityToMove dealO None)\<lparr>stageId := ''B''\<rparr>) ''B'' = Inl e))"
    by (simp add: remoteDown_persist)
  note ta = failed_commit_resynchronizes[OF a, where h=board and now=7 and src="''A''" and idx=0]
  note tb = failed_commit_resynchronizes[OF b, where h=board and now=7 and src="''A''" and idx=0]
  from ta have 1: "ToastError ''Erro ao mover oportunidade'' \<in>
      set (completeOpportunityMove remoteReadOnly 7 board dealO ''A'' ''B'' 0 None)"
    and 2: "filter isGetByStageId (completeOpportunityMove remoteReadOnly 7 board dealO ''A'' ''B'' 0 None) =
      [ApiGetByStageId ''A'' False, ApiGetByStageId ''B'' False, ApiGetByStageId ''C'' False]"
    by (simp_all add: Let_def board_stages board_ids)
  from ta remoteReadOnly_answers
  have "filter isSetStages (completeOpportunityMove remoteReadOnly 7 board dealO ''A'' ''B'' 0 None) =
      [SetStages (originalStages board [ [dealO], [], [] ])]"
    unfolding Let_def by blast
  then have 3: "filter isSetStages (completeOpportunityMove remoteReadOnly 7 board dealO ''A'' ''B'' 0 None) =
      [SetStages [stageA\<lparr>opportunities := [dealO]\<rparr>, stageB\<lparr>opportunities := []\<rparr>,
                  stageC\<lparr>opportunities := []\<rparr>]]"
    by (simp add: originalStages_def board_stages)
  from tb remoteDown_answers
  have 4: "filter isSetStages (completeOpportunityMove remoteDown 7 board dealO ''A'' ''B'' 0 None) = []"
    unfolding Let_def by blast
  from 1 2 3 4 show ?thesis by simp
qed

text \<open>
  C3. Wherever \<^verbatim>\<open>setStages\<close> occurs in a run of \<^verbatim>\<open>completeOpportunityMove\<close>, one of two
  things holds. Either the persist call and the stage-requirements processing have both
  returned without error, the events before it are exactly the raising of the flag and
  these two calls, and its argument is the patched list. Or a remote step was rejected,
  the persist call and the error toast came before it, and its argument is the list of
  stages with the opportunity lists the remote store returned: a rejected write never
  puts the patched list on screen.
\<close>

theorem patch_only_after_remote_success:
  assumes "completeOpportunityMove R now h opp src dst idx upd = pre @ SetStages s # post"
  shows "(persistAnswer R opp dst upd = Inr () \<and>
          (\<exists>p. processStageRequirements R ((opportunityToMove opp upd)\<lparr>stageId := dst\<rparr>) dst = Inr p \<and>
               s = updatedStages h opp (finalOpportunity p (opportunityToMove opp upd) dst)
                     now src dst idx) \<and>
          pre = [SetIsDragging True, persistCall opp dst upd,
                 ProcessStageRequirements ((opportunityToMove opp upd)\<lparr>stageId := dst\<rparr>) dst]) \<or>
         (((\<exists>e. persistAnswer R opp dst upd = Inl e) \<or>
           (\<exists>e. processStageRequirements R ((opportunityToMove opp upd)\<lparr>stageId := dst\<rparr>) dst = Inl e)) \<and>
          (\<exists>fetched.
             map (\<lambda>st. opportunityAPI_getByStageId R (id_stage st) False) (stages h) = map Inr fetched \<and>
             s = originalStages h fetched) \<and>
          persistCall opp dst upd \<in> set pre \<and>
          ToastError ''Erro ao mover oportunidade'' \<in> set pre)"
proof (cases "persistAnswer R opp dst upd = Inr () \<and>
    (\<exists>p. processStageRequirements R ((opportunityToMove opp upd)\<lparr>stageId := dst\<rparr>) dst = Inr p)")
  case True
  then obtain p where ok: "persistAnswer R opp dst upd = Inr ()"
    and pr: "processStageRequirements R ((opportunityToMove opp upd)\<lparr>stageId := dst\<rparr>) dst = Inr p"
    by blast
  have "[SetIsDragging True, persistCall opp dst upd,
         ProcessStageRequirements ((opportunityToMove opp upd)\<lparr>stageId := dst\<rparr>) dst] @
        SetStages (updatedStages h opp (finalOpportunity p (opportunityToMove opp upd) dst)
                     now src dst idx) #
        [ToastDismiss ''moving-opportunity'', ToastSuccess ''Oportunidade movida com sucesso'',
         SetIsDragging False] = pre @ SetStages s # post"
    using assms by (simp add: complete_success[OF ok pr])
  moreover have "isSetStages (SetStages s)"
    by simp
  moreover have "\<forall>a \<in> set [SetIsDragging True, persistCall opp dst upd,
         ProcessStageRequirements ((opportunityToMove opp upd)\<lparr>stageId := dst\<rparr>) dst].
       \<not> isSetStages a"
    by (simp add: persistCall_kind)
  moreover have "\<forall>a \<in> set [ToastDismiss ''moving-opportunity'',
         ToastSuccess ''Oportunidade movida com sucesso'', SetIsDragging False]. \<not> isSetStages a"
    by simp
  ultimately have "pre = [SetIsDragging True, persistCall opp dst upd,
         ProcessStageRequirements ((opportunityToMove opp upd)\<lparr>stageId := dst\<rparr>) dst] \<and>
        SetStages s = SetStages (updatedStages h opp (finalOpportunity p (opportunityToMove opp upd) dst)
                     now src dst idx) \<and>
        post = [ToastDismiss ''moving-opportunity'',
         ToastSuccess ''Oportunidade movida com sucesso'', SetIsDragging False]"
    by (rule split_at_unique)
  with ok pr show ?thesis by simp
next
  case False
  then have failed: "(\<exists>e. persistAnswer R opp dst upd = Inl e) \<or>
           (persistAnswer R opp dst upd = Inr () \<and>
            (\<exists>e. processStageRequirements R ((opportunityToMove opp upd)\<lparr>stageId := dst\<rparr>) dst = Inl e))"
    by (cases "persistAnswer R opp dst upd";
        cases "processStageRequirements R ((opportunityToMove opp upd)\<lparr>stageId := dst\<rparr>) dst")
      auto
  from failed_commit_shape[OF failed, of now h src idx] obtain calls where
    tr: "completeOpportunityMove R now h opp src dst idx upd =
           SetIsDragging True # calls @
           [ConsoleError ''Error moving opportunity:'', ToastDismiss ''moving-opportunity'',
            ToastError ''Erro ao mover oportunidade''] @ fst (revertStages R h) @
           [SetIsDragging False]"
    and pc: "persistCall opp dst upd \<in> set calls"
    and calls: "\<forall>c \<in> set calls. \<not> isSetStages c \<and> \<not> isGetByStageId c"
    by blast
  show ?thesis
  proof (cases "promiseAll (map (\<lambda>st. opportunityAPI_getByStageId R (id_stage st) False) (stages h))")
    case (Inl e)
    then have "\<exists>e. Inl e \<in> set (map (\<lambda>st. opportunityAPI_getByStageId R (id_stage st) False) (stages h))"
      using promiseAll_Inl by blast
    then obtain e' where
      "Inl e' \<in> set (map (\<lambda>st. opportunityAPI_getByStageId R (id_stage st) False) (stages h))"
      by blast
    note r = revert_rejected[OF this]
    have "SetStages s \<in> set (completeOpportunityMove R now h opp src dst idx upd)"
      by (simp add: assms)
    then have "SetStages s \<in> set calls"
      by (auto simp add: tr r)
    with calls have False
      by auto
    then show ?thesis ..
  next
    case (Inr fetched)
    then have a: "map (\<lambda>st. opportunityAPI_getByStageId R (id_stage st) False) (stages h) = map Inr fetched"
      by (rule promiseAll_Inr_only)
    have "(SetIsDragging True # calls @
           [ConsoleError ''Error moving opportunity:'', ToastDismiss ''moving-opportunity'',
            ToastError ''Erro ao mover oportunidade''] @
           map (\<lambda>st. ApiGetByStageId (id_stage st) False) (stages h)) @
          SetStages (originalStages h fetched) # [SetIsDragging False] = pre @ SetStages s # post"
      using assms by (simp add: tr revert_fetched[OF a])
    moreover have "isSetStages (SetStages s)"
      by simp
    moreover have "\<forall>a \<in> set (SetIsDragging True # calls @
           [ConsoleError ''Error moving opportunity:'', ToastDismiss ''moving-opportunity'',
            ToastError ''Erro ao mover oportunidade''] @
           map (\<lambda>st. ApiGetByStageId (id_stage st) False) (stages h)). \<not> isSetStages a"
      using calls by auto
    moreover have "\<forall>a \<in> set [SetIsDragging False]. \<not> isSetStages a"
      by simp
    ultimately have "pre = SetIsDragging True # calls @
           [ConsoleError ''Error moving opportunity:'', ToastDismiss ''moving-opportunity'',
            ToastError ''Erro ao mover oportunidade''] @
           map (\<lambda>st. ApiGetByStageId (id_stage st) False) (stages h) \<and>
          SetStages s = SetStages (originalStages h fetched) \<and> post = [SetIsDragging False]"
      by (rule split_at_unique)
    then have "persistCall opp dst upd \<in> set pre"
      and "ToastError ''Erro ao mover oportunidade'' \<in> set pre"
      and "s = originalStages h fetched"
      using pc by simp_all
    with failed a show ?thesis by blast
  qed
qed



theorem patch_only_after_remote_success_witness:
  "(\<exists>p. processStageRequirements remoteUp ((opportunityToMove dealO None)\<lparr>stageId := ''B''\<rparr>) ''B'' = Inr p \<and>
        [stageA\<lparr>opportunities := []\<rparr>,
         stageB\<lparr>opportunities := [dealO\<lparr>stageId := ''B'', lastStageChangeAt := Some 7\<rparr>]\<rparr>,
         stageC] =
        updatedStages board dealO (finalOpportunity p (opportunityToMove dealO None) ''B'')
          7 ''A'' ''B'' 0) \<and>
   (\<exists>fetched.
      map (\<lambda>st. opportunityAPI_getByStageId remoteReadOnly (id_stage st) False) (stages board) =
        map Inr fetched \<and>
      [stageA\<lparr>opportunities := [dealO]\<rparr>, stageB\<lparr>opportunities := []\<rparr>,
       stageC\<lparr>opportunities := []\<rparr>] = originalStages board fetched)"
proof -
  have up: "completeOpportunityMove remoteUp 7 board dealO ''A'' ''B'' 0 None =
      [SetIsDragging True, ApiMove ''o1'' ''B'',
       ProcessStageRequirements (dealO\<lparr>stageId := ''B''\<rparr>) ''B''] @
      SetStages [stageA\<lparr>opportunities := []\<rparr>,
                 stageB\<lparr>opportunities := [dealO\<lparr>stageId := ''B'', lastStageChangeAt := Some 7\<rparr>]\<rparr>,
                 stageC] #
      [ToastDismiss ''moving-opportunity'', ToastSuccess ''Oportunidade movida com sucesso'',
       SetIsDragging False]"
    by (simp add: complete_success[OF remoteUp_persist remoteUp_process] persistCall_def
        finalOpportunity_def opportunityToMove_def updatedStages_def patchStage_def
        spliceInsert_def spliceStart_def board_stages board_ids board_opportunities
        board_opp_ids)
  have down: "completeOpportunityMove remoteReadOnly 7 board dealO ''A'' ''B'' 0 None =
      [SetIsDragging True, ApiMove ''o1'' ''B'', ConsoleError ''Error moving opportunity:'',
       ToastDismiss ''moving-opportunity'', ToastError ''Erro ao mover oportunidade'',
       ApiGetByStageId ''A'' False, ApiGetByStageId ''B'' False, ApiGetByStageId ''C'' False] @
      SetStages [stageA\<lparr>opportunities := [dealO]\<rparr>, stageB\<lparr>opportunities := []\<rparr>,
                 stageC\<lparr>opportunities := []\<rparr>] #
      [SetIsDragging False]"
    by (simp add: complete_persist_fails[OF remoteReadOnly_persist]
        revert_fetched[OF remoteReadOnly_answers] persistCall_def originalStages_def
        board_stages board_ids board_opp_ids)
  have no_up: "persistAnswer remoteUp dealO ''B'' None \<noteq> Inl e" for e
    by (simp add: remoteUp_persist)
  have no_up': "processStageRequirements remoteUp x ''B'' \<noteq> Inl e" for x e
    by (simp add: remoteUp_process)
  have no_down: "persistAnswer remoteReadOnly dealO ''B'' None \<noteq> Inr ()"
    by (simp add: remoteReadOnly_persist)
  from patch_only_after_remote_success[OF up] no_up no_up'
  have 1: "\<exists>p. processStageRequirements remoteUp ((opportunityToMove dealO None)\<lparr>stageId := ''B''\<rparr>) ''B'' = Inr p \<and>
        [stageA\<lparr>opportunities := []\<rparr>,
         stageB\<lparr>opportunities := [dealO\<lparr>stageId := ''B'', lastStageChangeAt := Some 7\<rparr>]\<rparr>,
         stageC] =
        updatedStages board dealO (finalOpportunity p (opportunityToMove dealO None) ''B'')
          7 ''A'' ''B'' 0"
    by blast
  from patch_only_after_remote_success[OF down] no_down
  have 2: "\<exists>fetched.
      map (\<lambda>st. opportunityAPI_getByStageId remoteReadOnly (id_stage st) False) (stages board) =
        map Inr fetched \<and>
      [stageA\<lparr>opportunities := [dealO]\<rparr>, stageB\<lparr>opportunities := []\<rparr>,
       stageC\<lparr>opportunities := []\<rparr>] = originalStages board fetched"
    by blast
  from 1 2 show ?thesis by blast
qed

section \<open>Claims about the drag handler\<close>

lemma revertStages_no_dialog: "filter isDialogEvent (fst (revertStages R h)) = []"
  by (simp add: revertStages_events filter_map comp_def split: sum.splits)

lemma persistCall_no_dialog: "\<not> isDialogEvent (persistCall opp dst upd)"
  by (simp add: persistCall_def split: option.splits)

lemma complete_no_dialog:
  "filter isDialogEvent (completeOpportunityMove R now h opp src dst idx upd) = []"
proof (cases "persistAnswer R opp dst upd")
  case (Inl e)
  show ?thesis
    by (simp add: complete_persist_fails[OF Inl] persistCall_no_dialog revertStages_no_dialog)
next
  case (Inr u)
  then have ok: "persistAnswer R opp dst upd = Inr ()" by simp
  show ?thesis
  proof (cases "processStageRequirements R ((opportunityToMove opp upd)\<lparr>stageId := dst\<rparr>) dst")
    case (Inl e)
    show ?thesis
      by (simp add: complete_process_fails[OF ok Inl] persistCall_no_dialog revertStages_no_dialog)
  next
    case (Inr p)
    show ?thesis
      by (simp add: complete_success[OF ok Inr] persistCall_no_dialog)
  qed
qed

text \<open>
  C1. When the two stages and the opportunity are found, the verdict of the drag
  operation decides the route. With no missing field, no missing task and no reason
  required, \<^verbatim>\<open>handleOpportunityDrag\<close> goes straight into \<^verbatim>\<open>completeOpportunityMove\<close> and
  opens no dialog. With only a reason required, it stores the operation and opens the
  reason prompt. With at least one missing field it stores the operation and opens the
  full required-fields dialog, whether or not a reason is required too.
\<close>

theorem drag_routing:
  assumes "find (\<lambda>st. id_stage st = src) (stages h) = Some sourceStage"
    and "find (\<lambda>st. id_stage st = dst) (stages h) = Some destinationStage"
    and "find (\<lambda>x. id_opp x = draggableId) (opportunities sourceStage) = Some opp"
  shows "let d = createDragOperation opp src destinationStage idx;
             tr = handleOpportunityDrag createDragOperation R now h draggableId src dst idx
         in (missingFields d = [] \<and> missingTasks d = [] \<and> \<not> requiresReason d \<longrightarrow>
               tr = ToastLoading ''Movendo oportunidade...'' #
                    completeOpportunityMove R now h opp src dst idx None \<and>
               filter isDialogEvent tr = []) \<and>
            (requiresReason d \<and> missingFields d = [] \<and> missingTasks d = [] \<longrightarrow>
               tr = [ToastLoading ''Movendo oportunidade...'', ToastDismiss ''moving-opportunity'',
                     SetCurrentDragOperation d,
                     SetShowRequiredFieldsDialog (DialogString ''reason'')]) \<and>
            (missingFields d \<noteq> [] \<longrightarrow>
               tr = [ToastLoading ''Movendo oportunidade...'', ToastDismiss ''moving-opportunity'',
                     SetCurrentDragOperation d,
                     SetShowRequiredFieldsDialog (DialogBool True)])"
  using assms
  by (simp add: handleOpportunityDrag_def Let_def hasRequirements_def requiresOnlyReasons_def
      complete_no_dialog)

theorem drag_routing_witness:
  "handleOpportunityDrag plainOperation remoteUp 7 board ''o1'' ''A'' ''B'' 0 =
     ToastLoading ''Movendo oportunidade...'' #
     completeOpportunityMove remoteUp 7 board dealO ''A'' ''B'' 0 None \<and>
   handleOpportunityDrag (verdictOperation [] True) remoteUp 7 board ''o1'' ''A'' ''B'' 0 =
     [ToastLoading ''Movendo oportunidade...'', ToastDismiss ''moving-opportunity'',
      SetCurrentDragOperation (verdictOperation [] True dealO ''A'' stageB 0),
      SetShowRequiredFieldsDialog (DialogString ''reason'')] \<and>
   handleOpportunityDrag (verdictOperation [budgetField] True) remoteUp 7 board ''o1'' ''A'' ''B'' 0 =
     [ToastLoading ''Movendo oportunidade...'', ToastDismiss ''moving-opportunity'',
      SetCurrentDragOperation (verdictOperation [budgetField] True dealO ''A'' stageB 0),
      SetShowRequiredFieldsDialog (DialogBool True)]"
proof -
  note t = drag_routing[OF board_find, where R=remoteUp and now=7 and idx=0]
  from t[where createDragOperation=plainOperation]
  have 1: "handleOpportunityDrag plainOperation remoteUp 7 board ''o1'' ''A'' ''B'' 0 =
     ToastLoading ''Movendo oportunidade...'' #
     completeOpportunityMove remoteUp 7 board dealO ''A'' ''B'' 0 None"
    by (simp add: Let_def plainOperation_def)
  from t[where createDragOperation="verdictOperation [] True"]
  have 2: "handleOpportunityDrag (verdictOperation [] True) remoteUp 7 board ''o1'' ''A'' ''B'' 0 =
     [ToastLoading ''Movendo oportunidade...'', ToastDismiss ''moving-opportunity'',
      SetCurrentDragOperation (verdictOperation [] True dealO ''A'' stageB 0),
      SetShowRequiredFieldsDialog (DialogString ''reason'')]"
    by (simp add: Let_def verdictOperation_def)
  from t[where createDragOperation="verdictOperation [budgetField] True"]
  have 3: "handleOpportunityDrag (verdictOperation [budgetField] True) remoteUp 7 board ''o1'' ''A'' ''B'' 0 =
     [ToastLoading ''Movendo oportunidade...'', ToastDismiss ''moving-opportunity'',
      SetCurrentDragOperation (verdictOperation [budgetField] True dealO ''A'' stageB 0),
      SetShowRequiredFieldsDialog (DialogBool True)]"
    by (simp add: Let_def verdictOperation_def)
  from 1 2 3 show ?thesis by simp
qed

text \<open>
  C6. When no stage of the list has the source id, or none has the destination id, or
  the source stage found holds no opportunity with the dragged id, the run of
  \<^verbatim>\<open>handleOpportunityDrag\<close> consists of one logged error and one error toast: no remote
  call is made and no setter is called.
\<close>

theorem lookup_failure_aborts:
  assumes "src \<notin> id_stage ` set (stages h) \<or> dst \<notin> id_stage ` set (stages h) \<or>
           (\<exists>sourceStage. find (\<lambda>st. id_stage st = src) (stages h) = Some sourceStage \<and>
              draggableId \<notin> id_opp ` set (opportunities sourceStage))"
  shows "let tr = handleOpportunityDrag createDragOperation R now h draggableId src dst idx
         in (tr = [ConsoleError ''Could not find source or destination stage'',
                   ToastError ''Erro ao mover oportunidade''] \<or>
             tr = [ConsoleError ''Could not find opportunity:'', ToastError notFoundMessage]) \<and>
            filter isRemoteCall tr = [] \<and> filter isSetter tr = []"
proof -
  have none: "find P xs = None" if "\<forall>x \<in> set xs. \<not> P x" for P and xs :: "'a list"
    using that by (simp add: find_None_iff)
  from assms consider
    (source) "find (\<lambda>st. id_stage st = src) (stages h) = None"
  | (dest) "find (\<lambda>st. id_stage st = dst) (stages h) = None"
  | (opp) sourceStage where "find (\<lambda>st. id_stage st = src) (stages h) = Some sourceStage"
      "find (\<lambda>x. id_opp x = draggableId) (opportunities sourceStage) = None"
    by (auto simp add: find_None_iff image_iff)
  then show ?thesis
  proof cases
    case source
    then show ?thesis
      by (simp add: handleOpportunityDrag_def)
  next
    case dest
    then show ?thesis
      by (simp add: handleOpportunityDrag_def split: option.splits)
  next
    case opp
    then show ?thesis
      by (simp add: handleOpportunityDrag_def split: option.splits)
  qed
qed

theorem lookup_failure_aborts_witness:
  "filter isRemoteCall (handleOpportunityDrag plainOperation remoteUp 7 board ''zz'' ''A'' ''B'' 0) = [] \<and>
   filter isSetter (handleOpportunityDrag plainOperation remoteUp 7 board ''zz'' ''A'' ''B'' 0) = [] \<and>
   filter isRemoteCall (handleOpportunityDrag plainOperation remoteUp 7 board ''o1'' ''A'' ''Z'' 0) = [] \<and>
   filter isSetter (handleOpportunityDrag plainOperation remoteUp 7 board ''o1'' ''A'' ''Z'' 0) = []"
proof -
  have a: "''A'' \<notin> id_stage ` set (stages board) \<or> ''B'' \<notin> id_stage ` set (stages board) \<or>
           (\<exists>sourceStage. find (\<lambda>st. id_stage st = ''A'') (stages board) = Some sourceStage \<and>
              ''zz'' \<notin> id_opp ` set (opportunities sourceStage))"
    by (simp add: board_find board_opportunities board_opp_ids)
  have b: "''A'' \<notin> id_stage ` set (stages board) \<or> ''Z'' \<notin> id_stage ` set (stages board) \<or>
           (\<exists>sourceStage. find (\<lambda>st. id_stage st = ''A'') (stages board) = Some sourceStage \<and>
              ''o1'' \<notin> id_opp ` set (opportunities sourceStage))"
    by (simp add: board_stages board_ids)
  from lookup_failure_aborts[OF a, where createDragOperation=plainOperation and R=remoteUp
      and now=7 and idx=0]
    lookup_failure_aborts[OF b, where createDragOperation=plainOperation and R=remoteUp
      and now=7 and idx=0]
  show ?thesis
    by (simp add: Let_def)
qed

section \<open>The in-flight flag\<close>

text \<open>
  C7, as amended. \<^verbatim>\<open>completeOpportunityMove\<close> raises \<^verbatim>\<open>isDragging\<close> before its persist call
  and lowers it as its last act, and neither it nor \<^verbatim>\<open>handleOpportunityDrag\<close> reads the
  flag: a call made while the flag is up runs as any other call does, persist call
  included. Keeping moves apart is left to the caller.
\<close>

theorem flag_is_never_read:
  "completeOpportunityMove R now (h\<lparr>isDragging := b\<rparr>) opp src dst idx upd =
     completeOpportunityMove R now h opp src dst idx upd \<and>
   handleOpportunityDrag createDragOperation R now (h\<lparr>isDragging := b\<rparr>) draggableId src dst idx =
     handleOpportunityDrag createDragOperation R now h draggableId src dst idx \<and>
   take 2 (completeOpportunityMove R now h opp src dst idx upd) =
     [SetIsDragging True, persistCall opp dst upd] \<and>
   last (completeOpportunityMove R now h opp src dst idx upd) = SetIsDragging False \<and>
   isDragging (h\<lparr>isDragging := b\<rparr>) = b"
proof -
  have k: "catchBlock R (h\<lparr>isDragging := b\<rparr>) = catchBlock R h"
    by (rule ext) (simp add: catchBlock_def revertStages_def revertBody_def originalStages_def)
  have c: "completeOpportunityMove R now (h\<lparr>isDragging := b\<rparr>) opp src dst idx upd =
     completeOpportunityMove R now h opp src dst idx upd" for opp src dst idx upd
    by (simp add: completeOpportunityMove_def commitBody_def updatedStages_def k)
  have d: "handleOpportunityDrag createDragOperation R now (h\<lparr>isDragging := b\<rparr>) draggableId src dst idx =
     handleOpportunityDrag createDragOperation R now h draggableId src dst idx"
    by (simp add: handleOpportunityDrag_def c Let_def split: option.splits cong: if_cong)
  have t: "take 2 (completeOpportunityMove R now h opp src dst idx upd) =
     [SetIsDragging True, persistCall opp dst upd]"
    by (simp add: completeOpportunityMove_def commitBody_def tryCatch_def andThen_def await_def
        Let_def split: sum.splits)
  have l: "last (completeOpportunityMove R now h opp src dst idx upd) = SetIsDragging False"
    by (simp add: completeOpportunityMove_def)
  from c d t l show ?thesis by simp
qed

text \<open>
  C7 as stated fails: with the flag up, a call of either function starts a commit at once.
\<close>

theorem flag_is_never_read_counterexample:
  "isDragging (board\<lparr>isDragging := True\<rparr>) \<and>
   take 2 (completeOpportunityMove remoteUp 7 (board\<lparr>isDragging := True\<rparr>) dealO ''A'' ''B'' 0 None) =
     [SetIsDragging True, ApiMove ''o1'' ''B''] \<and>
   take 3 (handleOpportunityDrag plainOperation remoteUp 7 (board\<lparr>isDragging := True\<rparr>)
             ''o1'' ''A'' ''B'' 0) =
     [ToastLoading ''Movendo oportunidade...'', SetIsDragging True, ApiMove ''o1'' ''B'']"
  by (simp add: complete_success[OF remoteUp_persist remoteUp_process] persistCall_def
      handleOpportunityDrag_def hasRequirements_def plainOperation_def board_def
      stageA_def stageB_def stageC_def dealO_def)

section \<open>Claims about the stage dialog\<close>

text \<open>
  C8. A submission of the stage dialog with both the win and the loss switch on fails the
  schema and produces no event at all, so nothing is sent to the stage store; and every
  update the dialog does send comes from values that passed the schema and does not set
  both flags.
\<close>

theorem win_loss_exclusive:
  "let tr = handleSubmit stageAPI_update loaded reqs stageId_prop formValues
   in (isWinStage_form formValues = Some True \<and> isLossStage_form formValues = Some True \<longrightarrow>
         \<not> formSchema formValues \<and> tr = []) \<and>
      (\<forall>i p. StageApiUpdate i p \<in> set tr \<longrightarrow>
         formSchema formValues \<and>
         \<not> (isWinStage_su p = Some True \<and> isLossStage_su p = Some True))"
  by (auto simp add: handleSubmit_def onSubmit_def formSchema_def refinement_def truthy_def
      Let_def split: option.splits sum.splits if_splits)


theorem win_loss_exclusive_witness:
  "\<not> formSchema bothForm \<and>
   handleSubmit stageStore (Some stageB) [] ''B'' bothForm = [] \<and>
   formSchema winForm \<and>
   StageApiUpdate ''B''
     \<lparr> name_su = ''Closed'', description_su = None, funnelId_su = ''f1'', color_su = ''#00ff00'',
       isWinStage_su = Some True, isLossStage_su = Some False, requiredFields_su = [] \<rparr>
     \<in> set (handleSubmit stageStore (Some stageB) [] ''B'' winForm)"
proof -
  have valid: "formSchema winForm"
    by (simp add: formSchema_def winForm_def colorMatches_def hexDigit_def refinement_def
        truthy_def utf16Length_def utf16Units_def)
  have sent: "StageApiUpdate ''B''
     \<lparr> name_su = ''Closed'', description_su = None, funnelId_su = ''f1'', color_su = ''#00ff00'',
       isWinStage_su = Some True, isLossStage_su = Some False, requiredFields_su = [] \<rparr>
     \<in> set (handleSubmit stageStore (Some stageB) [] ''B'' winForm)"
    using valid by (simp add: handleSubmit_def onSubmit_def Let_def winForm_def stageB_def)
  from win_loss_exclusive[where stageAPI_update=stageStore and loaded="Some stageB"
      and reqs="[]" and stageId_prop="''B''" and formValues=bothForm]
  have 1: "\<not> formSchema bothForm \<and> handleSubmit stageStore (Some stageB) [] ''B'' bothForm = []"
    by (simp add: Let_def bothForm_def)
  from win_loss_exclusive[where stageAPI_update=stageStore and loaded="Some stageB"
      and reqs="[]" and stageId_prop="''B''" and formValues=winForm] sent
  have 2: "formSchema winForm"
    unfolding Let_def by blast
  from 1 2 sent show ?thesis by simp
qed

end
